theory Spec2Isabelle
  imports Main "HOL-Library.Word"
begin

unbundle bit_operations_syntax

section \<open>JavaScript values used by the hash service\<close>

text \<open>
  The hash service (\<^verbatim>\<open>src/services/hash.ts\<close>) works on JavaScript strings and on
  \<^verbatim>\<open>Uint8Array\<close>s. A JavaScript string is a sequence of UTF-16 code units, and
  \<^verbatim>\<open>+\<close>, \<^verbatim>\<open>===\<close> and \<^verbatim>\<open>.length\<close> work on code units; an element of a
  \<^verbatim>\<open>Uint8Array\<close> is an 8-bit value.
\<close>

type_synonym byte = "8 word"
type_synonym jsstring = "16 word list"

text \<open>The code units of a string literal of the source (all of them are ASCII).\<close>

definition js :: "string \<Rightarrow> jsstring" where
  "js s = map of_char s"

text \<open>
  A rejected promise or a thrown exception is a value: \<open>RangeError\<close> is what
  \<^verbatim>\<open>new Uint8Array(n)\<close> throws for a length that is no index, \<open>QuotaExceededError\<close> is
  what \<^verbatim>\<open>crypto.getRandomValues\<close> throws for more than 65536 bytes, and \<open>Error msg\<close> is
  \<^verbatim>\<open>new Error(msg)\<close>.
\<close>

datatype js_error = RangeError | QuotaExceededError | Error jsstring

subsection \<open>\<^verbatim>\<open>Number.prototype.toString(16)\<close> and \<^verbatim>\<open>String.prototype.padStart\<close>\<close>

definition hexDigits :: jsstring where
  "hexDigits = js ''0123456789abcdef''"

text \<open>\<^verbatim>\<open>n.toString(16)\<close> for a non-negative integer: no leading zero, lowercase letters.\<close>

function toString16 :: "nat \<Rightarrow> jsstring" where
  "toString16 n =
     (if n < 16 then [hexDigits ! n]
      else toString16 (n div 16) @ [hexDigits ! (n mod 16)])"
  by pat_completeness auto
termination
  by (relation "measure id") auto

declare toString16.simps [simp del]

text \<open>
  \<^verbatim>\<open>s.padStart(targetLength, padString)\<close>: the filler is repeated and cut to the missing
  length; a string that is long enough, or an empty filler, leaves \<open>s\<close> as it is.
\<close>

definition padStart :: "nat \<Rightarrow> jsstring \<Rightarrow> jsstring \<Rightarrow> jsstring" where
  "padStart targetLength padString s =
     (if targetLength \<le> length s \<or> padString = [] then s
      else take (targetLength - length s)
             (concat (replicate (targetLength - length s) padString)) @ s)"

subsection \<open>\<^verbatim>\<open>new TextEncoder().encode\<close>\<close>

text \<open>
  The encoder first reads the code units as Unicode scalar values (a high surrogate
  followed by a low one is one supplementary code point, any other surrogate becomes
  U+FFFD) and then writes each scalar value in UTF-8.
\<close>

definition is_high_surrogate :: "16 word \<Rightarrow> bool" where
  "is_high_surrogate u = (0xD800 \<le> u \<and> u \<le> 0xDBFF)"

definition is_low_surrogate :: "16 word \<Rightarrow> bool" where
  "is_low_surrogate u = (0xDC00 \<le> u \<and> u \<le> 0xDFFF)"

definition scalar_of_unit :: "16 word \<Rightarrow> 32 word" where
  "scalar_of_unit u =
     (if is_high_surrogate u \<or> is_low_surrogate u then 0xFFFD else ucast u)"

fun scalar_values :: "jsstring \<Rightarrow> 32 word list" where
  "scalar_values [] = []"
| "scalar_values [u] = [scalar_of_unit u]"
| "scalar_values (u # v # rest) =
     (if is_high_surrogate u \<and> is_low_surrogate v
      then (0x10000 + push_bit 10 (ucast u - 0xD800) + (ucast v - 0xDC00))
             # scalar_values rest
      else scalar_of_unit u # scalar_values (v # rest))"

definition utf8_bytes :: "32 word \<Rightarrow> byte list" where
  "utf8_bytes c =
     (if c < 0x80 then [ucast c]
      else if c < 0x800 then
        [ucast (0xC0 OR drop_bit 6 c), ucast (0x80 OR (c AND 0x3F))]
      else if c < 0x10000 then
        [ucast (0xE0 OR drop_bit 12 c), ucast (0x80 OR (drop_bit 6 c AND 0x3F)),
         ucast (0x80 OR (c AND 0x3F))]
      else
        [ucast (0xF0 OR drop_bit 18 c), ucast (0x80 OR (drop_bit 12 c AND 0x3F)),
         ucast (0x80 OR (drop_bit 6 c AND 0x3F)), ucast (0x80 OR (c AND 0x3F))])"

definition TextEncoder_encode :: "jsstring \<Rightarrow> byte list" where
  "TextEncoder_encode s = concat (map utf8_bytes (scalar_values s))"

subsection \<open>\<^verbatim>\<open>crypto.getRandomValues\<close>\<close>

text \<open>
  The secure random source is the only state of the service: an unbounded sequence of
  bytes not yet drawn. \<^verbatim>\<open>crypto.getRandomValues(array)\<close> fills the whole array from the
  front of the sequence, and throws \<open>QuotaExceededError\<close>, drawing nothing, when the
  array is longer than 65536 bytes (Web Cryptography API).
\<close>

type_synonym entropy = "nat \<Rightarrow> byte"

definition getRandomValues :: "nat \<Rightarrow> entropy \<Rightarrow> (js_error + byte list) \<times> entropy" where
  "getRandomValues n rs =
     (if 65536 < n then (Inl QuotaExceededError, rs)
      else (Inr (map rs [0..<n]), (\<lambda>i. rs (i + n))))"

section \<open>Salt generation\<close>

text \<open>
  \<open>hexByte\<close> is the arrow function \<^verbatim>\<open>byte => byte.toString(16).padStart(2, '0')\<close>, which
  the source applies to every byte of a salt and of a digest.
\<close>

definition hexByte :: "byte \<Rightarrow> jsstring" where
  "hexByte b = padStart 2 (js ''0'') (toString16 (unat b))"

text \<open>
  \<^verbatim>\<open>generateSalt(length: number = 32)\<close>. The argument is an integer here, and \<open>None\<close> when
  the caller leaves it out. \<^verbatim>\<open>new Uint8Array(length)\<close> throws \<open>RangeError\<close> unless the
  length is an index (from 0 to \<open>2^53 - 1\<close>); then the bytes are drawn, each is written
  by \<open>hexByte\<close>, and \<^verbatim>\<open>join('')\<close> concatenates the pieces.
\<close>

definition generateSalt :: "int option \<Rightarrow> entropy \<Rightarrow> (js_error + jsstring) \<times> entropy" where
  "generateSalt arg rs =
     (let length = (case arg of None \<Rightarrow> 32 | Some n \<Rightarrow> n) in
      if length < 0 \<or> 9007199254740991 < length then (Inl RangeError, rs)
      else
        (case getRandomValues (nat length) rs of
           (Inl e, rs') \<Rightarrow> (Inl e, rs')
         | (Inr array, rs') \<Rightarrow> (Inr (concat (map hexByte array)), rs')))"

section \<open>\<^verbatim>\<open>crypto.subtle.digest\<close>\<close>

text \<open>
  The digests of the Web Cryptography API are the secure hash algorithms of FIPS 180-4.
  A \<open>w\<close>-bit word is an \<open>int\<close> from 0 to \<open>2^w - 1\<close>, and every addition and left
  shift is reduced modulo \<open>2^w\<close> where it is made. The constants of the standard are
  written as decimal numbers: the round constants of SHA-256 and SHA-512 are the first
  \<open>w\<close> bits of the fractional parts of the cube roots of the first primes, their initial
  hash values those of the square roots of the first eight primes.
\<close>

definition rotr :: "nat \<Rightarrow> nat \<Rightarrow> int \<Rightarrow> int" where
  "rotr w n x = (x div 2 ^ n) OR ((x * 2 ^ (w - n)) mod 2 ^ w)"

definition rotl :: "nat \<Rightarrow> nat \<Rightarrow> int \<Rightarrow> int" where
  "rotl w n x = ((x * 2 ^ n) mod 2 ^ w) OR (x div 2 ^ (w - n))"

definition Ch :: "nat \<Rightarrow> int \<Rightarrow> int \<Rightarrow> int \<Rightarrow> int" where
  "Ch w x y z = (x AND y) XOR ((2 ^ w - 1 - x) AND z)"

definition Maj :: "int \<Rightarrow> int \<Rightarrow> int \<Rightarrow> int" where
  "Maj x y z = (x AND y) XOR (x AND z) XOR (y AND z)"

definition Parity :: "int \<Rightarrow> int \<Rightarrow> int \<Rightarrow> int" where
  "Parity x y z = x XOR y XOR z"

text \<open>Big-endian conversions between bytes and words.\<close>

definition be_int :: "byte list \<Rightarrow> int" where
  "be_int bs = foldl (\<lambda>acc b. acc * 256 + uint b) 0 bs"

fun be_bytes :: "nat \<Rightarrow> int \<Rightarrow> byte list" where
  "be_bytes 0 v = []"
| "be_bytes (Suc k) v = be_bytes k (v div 256) @ [word_of_int (v mod 256)]"

text \<open>
  Padding: the byte \<open>128\<close>, then the fewest zero bytes that make the length a multiple
  of the block size (\<open>block\<close> bytes) once the length of the message in bits is appended
  as a big-endian number of \<open>field\<close> bytes.
\<close>

definition pad :: "nat \<Rightarrow> nat \<Rightarrow> byte list \<Rightarrow> byte list" where
  "pad block field m =
     m @ [0x80]
       @ replicate ((block - (length m + 1 + field) mod block) mod block) 0
       @ be_bytes field (8 * int (length m))"

function chunks :: "nat \<Rightarrow> 'a list \<Rightarrow> 'a list list" where
  "chunks n xs = (if n = 0 \<or> xs = [] then [] else take n xs # chunks n (drop n xs))"
  by pat_completeness auto
termination
  by (relation "measure (\<lambda>(n, xs). length xs)") auto

declare chunks.simps [simp del]

subsection \<open>SHA-256 and SHA-512\<close>

text \<open>
  The two differ in the word size, the number of rounds (the length of the table of
  constants), the initial hash value and the six triples of rotation and shift amounts.
\<close>

type_synonym sha2_state = "int \<times> int \<times> int \<times> int \<times> int \<times> int \<times> int \<times> int"

definition Sigma :: "nat \<Rightarrow> nat \<times> nat \<times> nat \<Rightarrow> int \<Rightarrow> int" where
  "Sigma w r x = (case r of (i, j, k) \<Rightarrow> rotr w i x XOR rotr w j x XOR rotr w k x)"

definition sigma :: "nat \<Rightarrow> nat \<times> nat \<times> nat \<Rightarrow> int \<Rightarrow> int" where
  "sigma w r x = (case r of (i, j, k) \<Rightarrow> rotr w i x XOR rotr w j x XOR (x div 2 ^ k))"

record sha2_variant =
  word_bits :: nat
  round_constants :: "int list"
  initial_hash :: sha2_state
  Sigma0 :: "nat \<times> nat \<times> nat"
  Sigma1 :: "nat \<times> nat \<times> nat"
  sigma0 :: "nat \<times> nat \<times> nat"
  sigma1 :: "nat \<times> nat \<times> nat"

text \<open>
  The message schedule: \<open>ws\<close> holds the sixteen latest words, oldest first, so that the
  next one is made of \<open>W(t-2)\<close>, \<open>W(t-7)\<close>, \<open>W(t-15)\<close> and \<open>W(t-16)\<close>.
\<close>

fun sha2_extend :: "sha2_variant \<Rightarrow> nat \<Rightarrow> int list \<Rightarrow> int list" where
  "sha2_extend v 0 ws = []"
| "sha2_extend v (Suc k) ws =
     (let x = (sigma (word_bits v) (sigma1 v) (ws ! 14) + ws ! 9
                 + sigma (word_bits v) (sigma0 v) (ws ! 1) + ws ! 0) mod 2 ^ word_bits v
      in x # sha2_extend v k (tl ws @ [x]))"

definition sha2_schedule :: "sha2_variant \<Rightarrow> int list \<Rightarrow> int list" where
  "sha2_schedule v m = m @ sha2_extend v (length (round_constants v) - 16) m"

definition sha2_round :: "sha2_variant \<Rightarrow> sha2_state \<Rightarrow> int \<times> int \<Rightarrow> sha2_state" where
  "sha2_round v s kw =
     (case s of (a, b, c, d, e, f, g, h) \<Rightarrow>
      (case kw of (k, w) \<Rightarrow>
        (let t1 = h + Sigma (word_bits v) (Sigma1 v) e + Ch (word_bits v) e f g + k + w;
             t2 = Sigma (word_bits v) (Sigma0 v) a + Maj a b c
         in ((t1 + t2) mod 2 ^ word_bits v, a, b, c,
             (d + t1) mod 2 ^ word_bits v, e, f, g))))"

definition sha2_add :: "nat \<Rightarrow> sha2_state \<Rightarrow> sha2_state \<Rightarrow> sha2_state" where
  "sha2_add w s t =
     (case s of (a, b, c, d, e, f, g, h) \<Rightarrow>
      (case t of (a', b', c', d', e', f', g', h') \<Rightarrow>
        ((a + a') mod 2 ^ w, (b + b') mod 2 ^ w, (c + c') mod 2 ^ w, (d + d') mod 2 ^ w,
         (e + e') mod 2 ^ w, (f + f') mod 2 ^ w, (g + g') mod 2 ^ w, (h + h') mod 2 ^ w)))"

definition sha2_compress :: "sha2_variant \<Rightarrow> sha2_state \<Rightarrow> byte list \<Rightarrow> sha2_state" where
  "sha2_compress v hs block =
     (let m = map be_int (chunks (word_bits v div 8) block)
      in sha2_add (word_bits v) hs
           (foldl (sha2_round v) hs (zip (round_constants v) (sha2_schedule v m))))"

definition sha2_words :: "sha2_state \<Rightarrow> int list" where
  "sha2_words s = (case s of (a, b, c, d, e, f, g, h) \<Rightarrow> [a, b, c, d, e, f, g, h])"

definition sha2 :: "sha2_variant \<Rightarrow> byte list \<Rightarrow> byte list" where
  "sha2 v m =
     concat (map (be_bytes (word_bits v div 8))
       (sha2_words
         (foldl (sha2_compress v) (initial_hash v)
           (chunks (2 * word_bits v) (pad (2 * word_bits v) (word_bits v div 4) m)))))"

definition sha256_variant :: sha2_variant where
  "sha256_variant = \<lparr>
     word_bits = 32,
     round_constants =
       [1116352408, 1899447441, 3049323471, 3921009573, 961987163, 1508970993,
        2453635748, 2870763221, 3624381080, 310598401, 607225278, 1426881987,
        1925078388, 2162078206, 2614888103, 3248222580, 3835390401, 4022224774,
        264347078, 604807628, 770255983, 1249150122, 1555081692, 1996064986,
        2554220882, 2821834349, 2952996808, 3210313671, 3336571891, 3584528711,
        113926993, 338241895, 666307205, 773529912, 1294757372, 1396182291,
        1695183700, 1986661051, 2177026350, 2456956037, 2730485921, 2820302411,
        3259730800, 3345764771, 3516065817, 3600352804, 4094571909, 275423344,
        430227734, 506948616, 659060556, 883997877, 958139571, 1322822218,
        1537002063, 1747873779, 1955562222, 2024104815, 2227730452, 2361852424,
        2428436474, 2756734187, 3204031479, 3329325298],
     initial_hash =
       (1779033703, 3144134277, 1013904242, 2773480762,
        1359893119, 2600822924, 528734635, 1541459225),
     Sigma0 = (2, 13, 22), Sigma1 = (6, 11, 25),
     sigma0 = (7, 18, 3), sigma1 = (17, 19, 10) \<rparr>"

definition sha512_variant :: sha2_variant where
  "sha512_variant = \<lparr>
     word_bits = 64,
     round_constants =
       [4794697086780616226, 8158064640168781261, 13096744586834688815, 16840607885511220156,
        4131703408338449720, 6480981068601479193, 10538285296894168987, 12329834152419229976,
        15566598209576043074, 1334009975649890238, 2608012711638119052, 6128411473006802146,
        8268148722764581231, 9286055187155687089, 11230858885718282805, 13951009754708518548,
        16472876342353939154, 17275323862435702243, 1135362057144423861, 2597628984639134821,
        3308224258029322869, 5365058923640841347, 6679025012923562964, 8573033837759648693,
        10970295158949994411, 12119686244451234320, 12683024718118986047, 13788192230050041572,
        14330467153632333762, 15395433587784984357, 489312712824947311, 1452737877330783856,
        2861767655752347644, 3322285676063803686, 5560940570517711597, 5996557281743188959,
        7280758554555802590, 8532644243296465576, 9350256976987008742, 10552545826968843579,
        11727347734174303076, 12113106623233404929, 14000437183269869457, 14369950271660146224,
        15101387698204529176, 15463397548674623760, 17586052441742319658, 1182934255886127544,
        1847814050463011016, 2177327727835720531, 2830643537854262169, 3796741975233480872,
        4115178125766777443, 5681478168544905931, 6601373596472566643, 7507060721942968483,
        8399075790359081724, 8693463985226723168, 9568029438360202098, 10144078919501101548,
        10430055236837252648, 11840083180663258601, 13761210420658862357, 14299343276471374635,
        14566680578165727644, 15097957966210449927, 16922976911328602910, 17689382322260857208,
        500013540394364858, 748580250866718886, 1242879168328830382, 1977374033974150939,
        2944078676154940804, 3659926193048069267, 4368137639120453308, 4836135668995329356,
        5532061633213252278, 6448918945643986474, 6902733635092675308, 7801388544844847127],
     initial_hash =
       (7640891576956012808, 13503953896175478587, 4354685564936845355, 11912009170470909681,
        5840696475078001361, 11170449401992604703, 2270897969802886507, 6620516959819538809),
     Sigma0 = (28, 34, 39), Sigma1 = (14, 18, 41),
     sigma0 = (1, 8, 7), sigma1 = (19, 61, 6) \<rparr>"

subsection \<open>SHA-1\<close>

type_synonym sha1_state = "int \<times> int \<times> int \<times> int \<times> int"

fun sha1_extend :: "nat \<Rightarrow> int list \<Rightarrow> int list" where
  "sha1_extend 0 ws = []"
| "sha1_extend (Suc k) ws =
     (let x = rotl 32 1 (ws ! 13 XOR ws ! 8 XOR ws ! 2 XOR ws ! 0)
      in x # sha1_extend k (tl ws @ [x]))"

definition sha1_schedule :: "int list \<Rightarrow> int list" where
  "sha1_schedule m = m @ sha1_extend 64 m"

text \<open>The function and the constant of round \<open>t\<close>.\<close>

definition sha1_f :: "nat \<Rightarrow> int \<Rightarrow> int \<Rightarrow> int \<Rightarrow> int" where
  "sha1_f t x y z =
     (if t < 20 then Ch 32 x y z
      else if t < 40 then Parity x y z
      else if t < 60 then Maj x y z
      else Parity x y z)"

definition sha1_K :: "nat \<Rightarrow> int" where
  "sha1_K t =
     (if t < 20 then 1518500249
      else if t < 40 then 1859775393
      else if t < 60 then 2400959708
      else 3395469782)"

definition sha1_round :: "sha1_state \<Rightarrow> nat \<times> int \<Rightarrow> sha1_state" where
  "sha1_round s tw =
     (case s of (a, b, c, d, e) \<Rightarrow>
      (case tw of (t, w) \<Rightarrow>
        ((rotl 32 5 a + sha1_f t b c d + e + sha1_K t + w) mod 2 ^ 32,
         a, rotl 32 30 b, c, d)))"

definition sha1_compress :: "sha1_state \<Rightarrow> byte list \<Rightarrow> sha1_state" where
  "sha1_compress hs block =
     (let m = map be_int (chunks 4 block)
      in (case hs of (a, b, c, d, e) \<Rightarrow>
          (case foldl sha1_round hs (zip [0..<80] (sha1_schedule m)) of
             (a', b', c', d', e') \<Rightarrow>
               ((a + a') mod 2 ^ 32, (b + b') mod 2 ^ 32, (c + c') mod 2 ^ 32,
                (d + d') mod 2 ^ 32, (e + e') mod 2 ^ 32))))"

definition sha1 :: "byte list \<Rightarrow> byte list" where
  "sha1 m =
     (case foldl sha1_compress
             (1732584193, 4023233417, 2562383102, 271733878, 3285377520)
             (chunks 64 (pad 64 8 m)) of
        (a, b, c, d, e) \<Rightarrow> concat (map (be_bytes 4) [a, b, c, d, e]))"

text \<open>
  \<^verbatim>\<open>crypto.subtle.digest(name, data)\<close> for the three names the service passes:
  \<^verbatim>\<open>'SHA-1'\<close>, \<^verbatim>\<open>'SHA-256'\<close> and \<^verbatim>\<open>'SHA-512'\<close>.
\<close>

datatype digest_name = SHA_1 | SHA_256 | SHA_512

fun subtle_digest :: "digest_name \<Rightarrow> byte list \<Rightarrow> byte list" where
  "subtle_digest SHA_1 data = sha1 data"
| "subtle_digest SHA_256 data = sha2 sha256_variant data"
| "subtle_digest SHA_512 data = sha2 sha512_variant data"

section \<open>The hash functions\<close>

text \<open>
  Each of the four functions encodes \<^verbatim>\<open>password + salt\<close>, takes a digest of the bytes
  and writes every byte of the digest with \<^verbatim>\<open>b.toString(16).padStart(2, '0')\<close>.
  \<open>hashMD5\<close> asks for the \<^verbatim>\<open>'SHA-256'\<close> digest, as the source does.
\<close>

definition hashMD5 :: "jsstring \<Rightarrow> jsstring \<Rightarrow> jsstring" where
  "hashMD5 password salt =
     (let msgBuffer = TextEncoder_encode (password @ salt);
          hashBuffer = subtle_digest SHA_256 msgBuffer;
          hashArray = hashBuffer
      in concat (map hexByte hashArray))"

definition hashSHA1 :: "jsstring \<Rightarrow> jsstring \<Rightarrow> jsstring" where
  "hashSHA1 password salt =
     (let msgBuffer = TextEncoder_encode (password @ salt);
          hashBuffer = subtle_digest SHA_1 msgBuffer;
          hashArray = hashBuffer
      in concat (map hexByte hashArray))"

definition hashSHA256 :: "jsstring \<Rightarrow> jsstring \<Rightarrow> jsstring" where
  "hashSHA256 password salt =
     (let msgBuffer = TextEncoder_encode (password @ salt);
          hashBuffer = subtle_digest SHA_256 msgBuffer;
          hashArray = hashBuffer
      in concat (map hexByte hashArray))"

definition hashSHA512 :: "jsstring \<Rightarrow> jsstring \<Rightarrow> jsstring" where
  "hashSHA512 password salt =
     (let msgBuffer = TextEncoder_encode (password @ salt);
          hashBuffer = subtle_digest SHA_512 msgBuffer;
          hashArray = hashBuffer
      in concat (map hexByte hashArray))"

text \<open>
  The bcryptjs library is not part of the repository and is a parameter of the model:
  \<^verbatim>\<open>bcrypt.hash(s, rounds)\<close> draws its own salt from the random source, and
  \<^verbatim>\<open>bcrypt.compare(s, hash)\<close> answers whether \<open>s\<close> matches the encoded hash. The library
  itself is modelled further down, as \<open>bcryptjs\<close>.
\<close>

record bcrypt_library =
  bcrypt_hash :: "jsstring \<Rightarrow> nat \<Rightarrow> entropy \<Rightarrow> jsstring \<times> entropy"
  bcrypt_compare :: "jsstring \<Rightarrow> jsstring \<Rightarrow> bool"

definition hashBcrypt :: "bcrypt_library \<Rightarrow> jsstring \<Rightarrow> entropy \<Rightarrow> jsstring \<times> entropy" where
  "hashBcrypt bcrypt password rs =
     (let saltRounds = 10 in bcrypt_hash bcrypt password saltRounds rs)"

subsection \<open>The bcryptjs library\<close>

text \<open>
  The source imports \<^verbatim>\<open>bcryptjs\<close>. Its two functions are modelled here as the library
  computes them. Three things are left open in a \<open>bcryptjs_build\<close>: the major version
  (version 2 writes the revision letter \<^verbatim>\<open>a\<close> and asks the random source for sixteen
  32-bit values, of which it keeps the low bytes; version 3 writes \<^verbatim>\<open>b\<close> and asks for
  sixteen bytes), the Blowfish part (from the password with its terminating zero, the
  sixteen salt bytes and the cost to the six words of ciphertext), and what the library
  makes of a salt string that it would not write itself.
\<close>

datatype bcryptjs_version = V2 | V3

type_synonym ciphertext = "32 word \<times> 32 word \<times> 32 word \<times> 32 word \<times> 32 word \<times> 32 word"

record bcryptjs_build =
  version :: bcryptjs_version
  eksblowfish :: "jsstring \<Rightarrow> byte list \<Rightarrow> nat \<Rightarrow> ciphertext"
  foreign_hash :: "jsstring \<Rightarrow> jsstring \<Rightarrow> jsstring"

text \<open>
  The base-64 of bcrypt: three bytes become four characters of \<open>base64_code\<close>, most
  significant bits first; a last group of one or two bytes becomes two or three
  characters. \<open>sextets\<close> are the 6-bit values that \<^verbatim>\<open>base64_encode\<close> looks up.
\<close>

definition base64_code :: jsstring where
  "base64_code = js ''./ABCDEFGHIJKLMNOPQRSTUVWXYZabcdefghijklmnopqrstuvwxyz0123456789''"

fun sextets :: "byte list \<Rightarrow> byte list" where
  "sextets [] = []"
| "sextets [c1] = [drop_bit 2 c1 AND 0x3f, push_bit 4 (c1 AND 0x03) AND 0x3f]"
| "sextets [c1, c2] =
     [drop_bit 2 c1 AND 0x3f,
      (push_bit 4 (c1 AND 0x03) OR (drop_bit 4 c2 AND 0x0f)) AND 0x3f,
      push_bit 2 (c2 AND 0x0f) AND 0x3f]"
| "sextets (c1 # c2 # c3 # rest) =
     [drop_bit 2 c1 AND 0x3f,
      (push_bit 4 (c1 AND 0x03) OR (drop_bit 4 c2 AND 0x0f)) AND 0x3f,
      (push_bit 2 (c2 AND 0x0f) OR (drop_bit 6 c3 AND 0x03)) AND 0x3f,
      c3 AND 0x3f] @ sextets rest"

definition base64_encode :: "byte list \<Rightarrow> jsstring" where
  "base64_encode b = map (\<lambda>v. base64_code ! unat v) (sextets b)"

text \<open>
  \<^verbatim>\<open>base64_decode\<close> looks every character up in the inverse table and puts the 6-bit
  values together again; it is used on strings of valid characters only.
\<close>

definition base64_index :: "16 word \<Rightarrow> byte option" where
  "base64_index c = map_of (zip base64_code (map of_nat [0..<64])) c"

fun octets :: "byte list \<Rightarrow> byte list" where
  "octets (c1 # c2 # c3 # c4 # rest) =
     [push_bit 2 c1 OR drop_bit 4 (c2 AND 0x30),
      push_bit 4 (c2 AND 0x0f) OR drop_bit 2 (c3 AND 0x3c),
      push_bit 6 (c3 AND 0x03) OR c4] @ octets rest"
| "octets [c1, c2, c3] =
     [push_bit 2 c1 OR drop_bit 4 (c2 AND 0x30),
      push_bit 4 (c2 AND 0x0f) OR drop_bit 2 (c3 AND 0x3c)]"
| "octets [c1, c2] = [push_bit 2 c1 OR drop_bit 4 (c2 AND 0x30)]"
| "octets _ = []"

definition base64_decode :: "jsstring \<Rightarrow> nat \<Rightarrow> byte list option" where
  "base64_decode s len = map_option (\<lambda>vs. take len (octets vs)) (those (map base64_index s))"

text \<open>\<^verbatim>\<open>n.toString()\<close> for a non-negative integer.\<close>

function toString10 :: "nat \<Rightarrow> jsstring" where
  "toString10 n =
     (if n < 10 then [of_char CHR ''0'' + of_nat n]
      else toString10 (n div 10) @ [of_char CHR ''0'' + of_nat (n mod 10)])"
  by pat_completeness auto
termination
  by (relation "measure id") auto

declare toString10.simps [simp del]

definition revision :: "bcryptjs_version \<Rightarrow> 16 word" where
  "revision v = (case v of V2 \<Rightarrow> of_char CHR ''a'' | V3 \<Rightarrow> of_char CHR ''b'')"

text \<open>
  The head of a salt and of a hash: \<^verbatim>\<open>$2\<close>, the revision letter, \<^verbatim>\<open>$\<close>, the cost in two
  digits and \<^verbatim>\<open>$\<close>.
\<close>

definition bcrypt_head :: "bcryptjs_version \<Rightarrow> nat \<Rightarrow> jsstring" where
  "bcrypt_head v rounds =
     js ''$2'' @ [revision v] @ js ''$'' @ (if rounds < 10 then js ''0'' else [])
       @ toString10 rounds @ js ''$''"

text \<open>
  The sixteen random bytes of a new salt, and the random source after the draw: version 3
  fills a \<^verbatim>\<open>Uint8Array(16)\<close>, version 2 a \<^verbatim>\<open>Uint32Array(16)\<close> of which every value is
  masked with \<^verbatim>\<open>0xff\<close>.
\<close>

definition random16 :: "bcryptjs_version \<Rightarrow> entropy \<Rightarrow> byte list \<times> entropy" where
  "random16 v rs =
     (case v of
        V3 \<Rightarrow> (map rs [0..<16], (\<lambda>i. rs (i + 16)))
      | V2 \<Rightarrow> (map (\<lambda>i. rs (4 * i)) [0..<16], (\<lambda>i. rs (i + 64))))"

text \<open>
  \<^verbatim>\<open>genSalt(rounds)\<close>: a missing cost is 10, and the cost is kept between 4 and 31.
\<close>

definition genSalt :: "bcryptjs_build \<Rightarrow> nat \<Rightarrow> entropy \<Rightarrow> jsstring \<times> entropy" where
  "genSalt B rounds rs =
     (let r = (if rounds = 0 then 10 else if rounds < 4 then 4
               else if 31 < rounds then 31 else rounds)
      in case random16 (version B) rs of
           (b, rs') \<Rightarrow> (bcrypt_head (version B) r @ base64_encode b, rs'))"

text \<open>
  A salt string of the library's own form has 29 characters: the head with a cost from 4
  to 31, and 22 characters of base-64 for the sixteen salt bytes.
\<close>

definition digit_value :: "16 word \<Rightarrow> nat option" where
  "digit_value c = (if 0x30 \<le> c \<and> c \<le> 0x39 then Some (unat c - 48) else None)"

definition parse_salt :: "bcryptjs_version \<Rightarrow> jsstring \<Rightarrow> (nat \<times> byte list) option" where
  "parse_salt v salt =
     (if length salt = 29 \<and> take 2 salt = js ''$2'' \<and> salt ! 2 = revision v
         \<and> salt ! 3 = of_char CHR ''$'' \<and> salt ! 6 = of_char CHR ''$''
      then
        (case (digit_value (salt ! 4), digit_value (salt ! 5), base64_decode (drop 7 salt) 16) of
           (Some d1, Some d2, Some saltb) \<Rightarrow>
             (if 4 \<le> d1 * 10 + d2 \<and> d1 * 10 + d2 \<le> 31
              then Some (d1 * 10 + d2, saltb) else None)
         | _ \<Rightarrow> None)
      else None)"

definition cipher_bytes :: "ciphertext \<Rightarrow> byte list" where
  "cipher_bytes c =
     (case c of (a, b, c, d, e, f) \<Rightarrow>
        concat (map (\<lambda>w. [ucast (drop_bit 24 w), ucast (drop_bit 16 w),
                           ucast (drop_bit 8 w), ucast w])
                  [a, b, c, d, e, f]))"

text \<open>
  \<^verbatim>\<open>_hash(s, salt)\<close>: the salt is read back from the string, the password gets its
  terminating zero, and the result is the head, the salt and the first 23 bytes of the
  ciphertext in base-64.
\<close>

definition hash_with_salt :: "bcryptjs_build \<Rightarrow> jsstring \<Rightarrow> jsstring \<Rightarrow> jsstring" where
  "hash_with_salt B s salt =
     (case parse_salt (version B) salt of
        None \<Rightarrow> foreign_hash B s salt
      | Some (rounds, saltb) \<Rightarrow>
          bcrypt_head (version B) rounds @ base64_encode saltb
            @ base64_encode (take 23 (cipher_bytes (eksblowfish B (s @ [0]) saltb rounds))))"

text \<open>
  \<^verbatim>\<open>bcrypt.hash(s, rounds)\<close> makes a salt and hashes with it. \<^verbatim>\<open>bcrypt.compare(s, hash)\<close>
  answers false unless the hash has 60 characters, and otherwise hashes \<open>s\<close> with the
  first 29 characters of the hash as salt and compares all characters of the two
  strings.
\<close>

definition bcryptjs :: "bcryptjs_build \<Rightarrow> bcrypt_library" where
  "bcryptjs B =
     \<lparr>bcrypt_hash = (\<lambda>s rounds rs.
        (case genSalt B rounds rs of (salt, rs') \<Rightarrow> (hash_with_salt B s salt, rs'))),
      bcrypt_compare = (\<lambda>s h.
        if length h = 60 then hash_with_salt B s (take 29 h) = h else False)\<rparr>"

section \<open>Hashing and verifying a password\<close>

record HashResult =
  hashedPassword :: jsstring
  salt :: jsstring
  algorithm :: jsstring

text \<open>
  The type \<^verbatim>\<open>HashAlgorithm\<close> is checked by the compiler only: at run time the tag is a
  string, compared with \<^verbatim>\<open>===\<close>, and both functions keep a \<^verbatim>\<open>default\<close> branch that
  throws. In \<open>hashPassword\<close> the salt is generated before the \<^verbatim>\<open>switch\<close>.
\<close>

definition unsupported :: "jsstring \<Rightarrow> js_error" where
  "unsupported tag = Error (js ''Unsupported algorithm: '' @ tag)"

definition hashPassword ::
  "bcrypt_library \<Rightarrow> jsstring \<Rightarrow> jsstring \<Rightarrow> entropy \<Rightarrow> (js_error + HashResult) \<times> entropy"
where
  "hashPassword bcrypt password algorithm rs =
     (if algorithm = js ''bcrypt'' then
        (case hashBcrypt bcrypt password rs of
           (hashedPassword, rs') \<Rightarrow>
             (Inr \<lparr>hashedPassword = hashedPassword, salt = [], algorithm = algorithm\<rparr>,
              rs'))
      else
        (case generateSalt None rs of
           (Inl e, rs') \<Rightarrow> (Inl e, rs')
         | (Inr salt, rs') \<Rightarrow>
             (case (if algorithm = js ''MD5'' then Inr (hashMD5 password salt)
                    else if algorithm = js ''SHA-1'' then Inr (hashSHA1 password salt)
                    else if algorithm = js ''SHA-256'' then Inr (hashSHA256 password salt)
                    else if algorithm = js ''SHA-512'' then Inr (hashSHA512 password salt)
                    else Inl (unsupported algorithm)) of
                Inl e \<Rightarrow> (Inl e, rs')
              | Inr hashedPassword \<Rightarrow>
                  (Inr \<lparr>hashedPassword = hashedPassword, salt = salt,
                        algorithm = algorithm\<rparr>, rs'))))"
  for hashedPassword salt algorithm

definition verifyPassword ::
  "bcrypt_library \<Rightarrow> jsstring \<Rightarrow> jsstring \<Rightarrow> jsstring \<Rightarrow> jsstring \<Rightarrow> js_error + bool"
where
  "verifyPassword bcrypt password storedHash salt algorithm =
     (if algorithm = js ''bcrypt'' then Inr (bcrypt_compare bcrypt password storedHash)
      else
        (case (if algorithm = js ''MD5'' then Inr (hashMD5 password salt)
               else if algorithm = js ''SHA-1'' then Inr (hashSHA1 password salt)
               else if algorithm = js ''SHA-256'' then Inr (hashSHA256 password salt)
               else if algorithm = js ''SHA-512'' then Inr (hashSHA512 password salt)
               else Inl (unsupported algorithm)) of
           Inl e \<Rightarrow> Inl e
         | Inr newHash \<Rightarrow> Inr (newHash = storedHash)))"
  for salt algorithm

section \<open>The vocabulary of the specification\<close>

text \<open>
  The specification speaks of two lowercase hexadecimal digits per byte, of the
  non-self-salting algorithms, and of the digest that belongs to an algorithm tag. These
  definitions follow its words; the theorems below compare them with the functions of the
  source.
\<close>

definition hexDigit :: "nat \<Rightarrow> 16 word" where
  "hexDigit d =
     (if d < 10 then of_char CHR ''0'' + of_nat d else of_char CHR ''a'' + of_nat (d - 10))"

definition twoHexDigits :: "byte \<Rightarrow> jsstring" where
  "twoHexDigits b = [hexDigit (unat b div 16), hexDigit (unat b mod 16)]"

definition lowerHex :: "byte list \<Rightarrow> jsstring" where
  "lowerHex bs = concat (map twoHexDigits bs)"

definition isLowerHexDigit :: "16 word \<Rightarrow> bool" where
  "isLowerHexDigit c = (c \<in> set (js ''0123456789abcdef''))"

definition digestTags :: "jsstring list" where
  "digestTags = [js ''MD5'', js ''SHA-1'', js ''SHA-256'', js ''SHA-512'']"

definition knownTags :: "jsstring list" where
  "knownTags = [js ''MD5'', js ''SHA-1'', js ''SHA-256'', js ''SHA-512'', js ''bcrypt'']"

text \<open>
  The digest computed for a tag; for \<^verbatim>\<open>'MD5'\<close> the specification says it is SHA-256.
\<close>

definition digestFor :: "jsstring \<Rightarrow> digest_name" where
  "digestFor tag =
     (if tag = js ''MD5'' then SHA_256
      else if tag = js ''SHA-1'' then SHA_1
      else if tag = js ''SHA-256'' then SHA_256
      else SHA_512)"

text \<open>
  The message is the password followed by the salt; the hash is the digest of its UTF-8
  bytes in lowercase hexadecimal.
\<close>

definition hexDigest :: "digest_name \<Rightarrow> jsstring \<Rightarrow> jsstring \<Rightarrow> jsstring" where
  "hexDigest d p s = lowerHex (subtle_digest d (TextEncoder_encode (p @ s)))"

subsection \<open>Concrete inputs\<close>

text \<open>
  The password and the salt of the specification's golden test, two random sources, and
  a stand-in with the interface of the bcrypt library. The stand-in is no model of
  bcrypt: it only fills the library parameter where a theorem is applied to concrete
  inputs.
\<close>

definition golden_password :: jsstring where
  "golden_password = js ''correcthorsebatterystaple1''"

definition golden_salt :: jsstring where
  "golden_salt = concat (replicate 32 (js ''00''))"

definition zero_entropy :: entropy where
  "zero_entropy i = 0"

definition sample_entropy :: entropy where
  "sample_entropy i = of_nat (37 * i + 11)"

definition stand_in_bcrypt :: bcrypt_library where
  "stand_in_bcrypt =
     \<lparr>bcrypt_hash = (\<lambda>s rounds rs. (js ''$2b$'' @ s, (\<lambda>i. rs (i + 16)))),
      bcrypt_compare = (\<lambda>s h. h = js ''$2b$'' @ s)\<rparr>"

section \<open>Hexadecimal encoding\<close>

lemma hexDigits_table:
  "list_all (\<lambda>d. hexDigits ! d = hexDigit d \<and> isLowerHexDigit (hexDigit d)) [0..<16]"
  by code_simp

lemma hexDigits_nth:
  assumes "d < 16"
  shows "hexDigits ! d = hexDigit d" and "isLowerHexDigit (hexDigit d)"
  using assms hexDigits_table by (simp_all add: list_all_iff)

lemma toString16_digit: "n < 16 \<Longrightarrow> toString16 n = [hexDigit n]"
  by (subst toString16.simps) (simp add: hexDigits_nth)

lemma toString16_two:
  assumes "16 \<le> n" "n < 256"
  shows "toString16 n = [hexDigit (n div 16), hexDigit (n mod 16)]"
proof -
  from assms have "n div 16 < 16" by simp
  then have "toString16 (n div 16) = [hexDigit (n div 16)]"
    by (rule toString16_digit)
  moreover have "hexDigits ! (n mod 16) = hexDigit (n mod 16)"
    by (rule hexDigits_nth) simp
  ultimately show ?thesis
    using assms by (subst toString16.simps) simp
qed

lemma hexDigit_0: "hexDigit 0 = of_char CHR ''0''"
  by (simp add: hexDigit_def)

lemma byte_less_256: "unat (b :: byte) < 256"
  using unsigned_less [of b, where ?'a = nat] by simp

text \<open>\<^verbatim>\<open>b.toString(16).padStart(2, '0')\<close> writes the two hexadecimal digits of the byte.\<close>

lemma hexByte_twoHexDigits: "hexByte b = twoHexDigits b"
proof (cases "unat b < 16")
  case True
  then have "toString16 (unat b) = [hexDigit (unat b)]"
    by (rule toString16_digit)
  with True show ?thesis
    by (simp add: hexByte_def twoHexDigits_def padStart_def js_def hexDigit_0)
next
  case False
  with byte_less_256 [of b]
  have "toString16 (unat b) = [hexDigit (unat b div 16), hexDigit (unat b mod 16)]"
    by (intro toString16_two) simp_all
  then show ?thesis
    by (simp add: hexByte_def twoHexDigits_def padStart_def)
qed

lemma hex_lowerHex: "concat (map hexByte bs) = lowerHex bs"
  by (simp add: lowerHex_def hexByte_twoHexDigits [abs_def])

lemma length_lowerHex: "length (lowerHex bs) = 2 * length bs"
  by (induction bs) (simp_all add: lowerHex_def twoHexDigits_def)

lemma lowerHex_digits: "list_all isLowerHexDigit (lowerHex bs)"
proof (induction bs)
  case Nil
  show ?case by (simp add: lowerHex_def)
next
  case (Cons b bs)
  from byte_less_256 [of b] have "unat b div 16 < 16" and "unat b mod 16 < 16"
    by simp_all
  then have "isLowerHexDigit (hexDigit (unat b div 16))"
    and "isLowerHexDigit (hexDigit (unat b mod 16))"
    by (simp_all add: hexDigits_nth)
  with Cons show ?case
    by (simp add: lowerHex_def twoHexDigits_def)
qed

section \<open>Salt generation\<close>

lemma getRandomValues_in_quota:
  "n \<le> 65536 \<Longrightarrow> getRandomValues n rs = (Inr (map rs [0..<n]), (\<lambda>i. rs (i + n)))"
  by (simp add: getRandomValues_def)

lemma generateSalt_in_quota:
  assumes "0 \<le> n" "n \<le> 65536"
  shows "generateSalt (Some n) rs =
    (Inr (lowerHex (map rs [0..<nat n])), (\<lambda>i. rs (i + nat n)))"
proof -
  from assms have "nat n \<le> 65536" by simp
  then have "getRandomValues (nat n) rs = (Inr (map rs [0..<nat n]), (\<lambda>i. rs (i + nat n)))"
    by (rule getRandomValues_in_quota)
  with assms show ?thesis
    by (simp add: generateSalt_def hex_lowerHex del: map_map)
qed

lemma generateSalt_omitted: "generateSalt None rs = generateSalt (Some 32) rs"
  by (simp add: generateSalt_def)

lemma generateSalt_default:
  "generateSalt None rs = (Inr (lowerHex (map rs [0..<32])), (\<lambda>i. rs (i + 32)))"
  using generateSalt_in_quota [of 32 rs] by (simp add: generateSalt_omitted)

section \<open>The dispatch on the algorithm tag\<close>

lemma hash_functions_hexDigest:
  "hashMD5 p s = hexDigest SHA_256 p s"
  "hashSHA1 p s = hexDigest SHA_1 p s"
  "hashSHA256 p s = hexDigest SHA_256 p s"
  "hashSHA512 p s = hexDigest SHA_512 p s"
  by (simp_all add: hashMD5_def hashSHA1_def hashSHA256_def hashSHA512_def hexDigest_def
      hex_lowerHex)

lemma tags_distinct: "distinct knownTags"
  by (simp add: knownTags_def js_def)

lemma digestFor_tags:
  "digestFor (js ''MD5'') = SHA_256"
  "digestFor (js ''SHA-1'') = SHA_1"
  "digestFor (js ''SHA-256'') = SHA_256"
  "digestFor (js ''SHA-512'') = SHA_512"
  by (simp_all add: digestFor_def js_def)

lemma digest_tag_cases:
  assumes "a \<in> set digestTags"
  obtains "a = js ''MD5''" | "a = js ''SHA-1''" | "a = js ''SHA-256''" | "a = js ''SHA-512''"
  using assms by (auto simp: digestTags_def)

lemma verifyPassword_digest:
  assumes "a \<in> set digestTags"
  shows "verifyPassword bcrypt p h s a = Inr (hexDigest (digestFor a) p s = h)"
  using assms tags_distinct
  by (cases rule: digest_tag_cases)
    (simp_all add: verifyPassword_def digestFor_def knownTags_def hash_functions_hexDigest)

lemma hashPassword_digest:
  assumes "a \<in> set digestTags"
  shows "hashPassword bcrypt p a rs =
    (Inr \<lparr>hashedPassword = hexDigest (digestFor a) p (lowerHex (map rs [0..<32])),
          salt = lowerHex (map rs [0..<32]), algorithm = a\<rparr>,
     (\<lambda>i. rs (i + 32)))"
  using assms tags_distinct
  by (cases rule: digest_tag_cases)
    (simp_all add: hashPassword_def digestFor_def knownTags_def hash_functions_hexDigest
      generateSalt_default)

lemma hashPassword_bcrypt:
  "hashPassword bcrypt p (js ''bcrypt'') rs =
    (Inr \<lparr>hashedPassword = fst (bcrypt_hash bcrypt p 10 rs), salt = [],
          algorithm = js ''bcrypt''\<rparr>,
     snd (bcrypt_hash bcrypt p 10 rs))"
  by (simp add: hashPassword_def hashBcrypt_def split: prod.split)

lemma verifyPassword_bcrypt:
  "verifyPassword bcrypt p h s (js ''bcrypt'') = Inr (bcrypt_compare bcrypt p h)"
  by (simp add: verifyPassword_def)

lemma unsupported_tag:
  assumes "a \<notin> set knownTags"
  shows "hashPassword bcrypt p a rs = (Inl (unsupported a), (\<lambda>i. rs (i + 32)))"
    and "verifyPassword bcrypt p h s a = Inl (unsupported a)"
  using assms
  by (simp_all add: hashPassword_def verifyPassword_def knownTags_def generateSalt_default)

section \<open>The bcryptjs library accepts its own hashes\<close>

lemma byte_masks:
  "(0x3f :: byte) = mask 6" "(0x03 :: byte) = mask 2" "(0x0f :: byte) = mask 4"
  "(0x30 :: byte) = push_bit 4 (mask 2)" "(0x3c :: byte) = push_bit 2 (mask 4)"
  by (simp_all add: mask_eq_exp_minus_1)

lemma byte_eqI:
  fixes a b :: byte
  assumes "\<And>n. n \<in> {0, 1, 2, 3, 4, 5, 6, 7} \<Longrightarrow> bit a n = bit b n"
  shows "a = b"
proof (rule bit_word_eqI)
  fix n
  assume "n < LENGTH(8)"
  then have "n \<in> {0, 1, 2, 3, 4, 5, 6, 7}"
    by auto
  then show "bit a n = bit b n"
    by (rule assms)
qed

text \<open>The 6-bit values of one, two or three bytes give the bytes back.\<close>

lemma octet1:
  "push_bit 2 (drop_bit 2 c1 AND 0x3f)
     OR drop_bit 4 (((push_bit 4 (c1 AND 0x03) OR (drop_bit 4 c2 AND 0x0f)) AND 0x3f) AND 0x30)
   = (c1 :: byte)"
  unfolding byte_masks
  by (rule byte_eqI)
    (auto simp: bit_simps numeral_2_eq_2 [symmetric] numeral_3_eq_3 [symmetric])

lemma octet1_last:
  "push_bit 2 (drop_bit 2 c1 AND 0x3f)
     OR drop_bit 4 ((push_bit 4 (c1 AND 0x03) AND 0x3f) AND 0x30)
   = (c1 :: byte)"
  unfolding byte_masks
  by (rule byte_eqI)
    (auto simp: bit_simps numeral_2_eq_2 [symmetric] numeral_3_eq_3 [symmetric])

lemma octet2:
  "push_bit 4 (((push_bit 4 (c1 AND 0x03) OR (drop_bit 4 c2 AND 0x0f)) AND 0x3f) AND 0x0f)
     OR drop_bit 2 (((push_bit 2 (c2 AND 0x0f) OR (drop_bit 6 c3 AND 0x03)) AND 0x3f) AND 0x3c)
   = (c2 :: byte)"
  unfolding byte_masks
  by (rule byte_eqI) (auto simp: bit_simps)

lemma octet2_last:
  "push_bit 4 (((push_bit 4 (c1 AND 0x03) OR (drop_bit 4 c2 AND 0x0f)) AND 0x3f) AND 0x0f)
     OR drop_bit 2 ((push_bit 2 (c2 AND 0x0f) AND 0x3f) AND 0x3c)
   = (c2 :: byte)"
  unfolding byte_masks
  by (rule byte_eqI) (auto simp: bit_simps)

lemma octet3:
  "push_bit 6 (((push_bit 2 (c2 AND 0x0f) OR (drop_bit 6 c3 AND 0x03)) AND 0x3f) AND 0x03)
     OR (c3 AND 0x3f)
   = (c3 :: byte)"
  unfolding byte_masks
  by (rule byte_eqI) (auto simp: bit_simps)

lemma octets_sextets: "octets (sextets b) = b"
  by (induction b rule: sextets.induct)
    (simp_all only: sextets.simps octets.simps append.simps
      octet1 octet1_last octet2 octet2_last octet3)

lemma length_sextets: "length (sextets b) = (4 * length b + 2) div 3"
  by (induction b rule: sextets.induct) simp_all

lemma sextet_bound: "v \<in> set (sextets b) \<Longrightarrow> v \<le> 63"
  by (induction b rule: sextets.induct) (auto simp: word_and_le1)

lemma base64_table:
  "list_all (\<lambda>v. base64_index (base64_code ! unat v) = Some v) (map of_nat [0..<64])"
  by code_simp

lemma base64_index_code:
  assumes "v \<le> 63"
  shows "base64_index (base64_code ! unat v) = Some v"
proof -
  from assms have "unat v \<in> set [0..<64]"
    by (simp add: word_le_nat_alt)
  then have "of_nat (unat v) \<in> (of_nat ` set [0..<64] :: byte set)"
    by (rule imageI)
  then have "v \<in> set (map of_nat [0..<64] :: byte list)"
    by (simp only: set_map of_nat_unat ucast_id)
  with base64_table show ?thesis
    by (simp only: list_all_iff)
qed

lemma those_map_Some:
  "list_all (\<lambda>v. f (g v) = Some v) vs \<Longrightarrow> those (map f (map g vs)) = Some vs"
  by (induction vs) simp_all

lemma base64_decode_encode: "base64_decode (base64_encode b) len = Some (take len b)"
proof -
  have "list_all (\<lambda>v. base64_index (base64_code ! unat v) = Some v) (sextets b)"
    by (simp add: list_all_iff base64_index_code sextet_bound)
  then have "those (map base64_index (base64_encode b)) = Some (sextets b)"
    unfolding base64_encode_def by (rule those_map_Some)
  then show ?thesis
    by (simp add: base64_decode_def octets_sextets)
qed

lemma length_base64_encode: "length (base64_encode b) = (4 * length b + 2) div 3"
  by (simp add: base64_encode_def length_sextets)

lemma bcrypt_head_10: "bcrypt_head v 10 = js ''$2'' @ [revision v] @ js ''$10$''"
proof -
  have "toString10 10 = js ''10''"
    by code_simp
  then show ?thesis
    by (simp add: bcrypt_head_def js_def)
qed

lemma length_random16: "length (fst (random16 v rs)) = 16"
  by (cases v) (simp_all add: random16_def)

lemma length_cipher_bytes: "length (cipher_bytes c) = 24"
  by (cases c) (simp add: cipher_bytes_def)

text \<open>A salt that \<open>genSalt\<close> writes for the cost 10 is read back as it was made.\<close>

lemma parse_salt_10:
  assumes "length b = 16"
  shows "parse_salt v (bcrypt_head v 10 @ base64_encode b) = Some (10, b)"
proof -
  have digits: "digit_value 49 = Some 1" "digit_value 48 = Some 0"
    by (simp_all add: digit_value_def)
  from assms have "length (base64_encode b) = 22"
    by (simp add: length_base64_encode)
  moreover from assms have "base64_decode (base64_encode b) 16 = Some b"
    by (simp add: base64_decode_encode)
  ultimately show ?thesis
    by (simp add: parse_salt_def bcrypt_head_10 js_def digits)
qed

lemma hash_with_salt_10:
  assumes "length b = 16"
  shows "hash_with_salt B s (bcrypt_head (version B) 10 @ base64_encode b) =
    bcrypt_head (version B) 10 @ base64_encode b
      @ base64_encode (take 23 (cipher_bytes (eksblowfish B (s @ [0]) b 10)))"
  using assms by (simp add: hash_with_salt_def parse_salt_10)

lemma bcryptjs_hash_10:
  "bcrypt_hash (bcryptjs B) s 10 rs =
    (bcrypt_head (version B) 10 @ base64_encode (fst (random16 (version B) rs))
       @ base64_encode (take 23
           (cipher_bytes (eksblowfish B (s @ [0]) (fst (random16 (version B) rs)) 10))),
     snd (random16 (version B) rs))"
proof -
  obtain b rs' where drawn: "random16 (version B) rs = (b, rs')"
    by (cases "random16 (version B) rs")
  with length_random16 [of "version B" rs] have "length b = 16"
    by simp
  with drawn show ?thesis
    by (simp add: bcryptjs_def genSalt_def hash_with_salt_10)
qed

lemma bcryptjs_accepts:
  "bcrypt_compare (bcryptjs B) s (fst (bcrypt_hash (bcryptjs B) s 10 rs))"
proof -
  define b where "b = fst (random16 (version B) rs)"
  define c where "c = base64_encode (take 23 (cipher_bytes (eksblowfish B (s @ [0]) b 10)))"
  have b: "length b = 16"
    by (simp add: b_def length_random16)
  then have salt: "length (bcrypt_head (version B) 10 @ base64_encode b) = 29"
    by (simp add: bcrypt_head_10 js_def length_base64_encode)
  have "length c = 31"
    by (simp add: c_def length_base64_encode length_cipher_bytes)
  with salt have "length ((bcrypt_head (version B) 10 @ base64_encode b) @ c) = 60"
    and "take 29 ((bcrypt_head (version B) 10 @ base64_encode b) @ c)
      = bcrypt_head (version B) 10 @ base64_encode b"
    by simp_all
  moreover have "hash_with_salt B s (bcrypt_head (version B) 10 @ base64_encode b)
      = (bcrypt_head (version B) 10 @ base64_encode b) @ c"
    using b by (simp add: hash_with_salt_10 c_def)
  moreover have "fst (bcrypt_hash (bcryptjs B) s 10 rs)
      = (bcrypt_head (version B) 10 @ base64_encode b) @ c"
    by (simp add: bcryptjs_hash_10 b_def c_def)
  ultimately show ?thesis
    by (simp add: bcryptjs_def)
qed


section \<open>The digests of the golden inputs\<close>

text \<open>
  The three digests give the published answers of the standard for the message
  \<^verbatim>\<open>abc\<close> (here as a password with the empty salt).
\<close>

lemma abc_known_answers:
  "hashSHA1 (js ''abc'') [] =
     js ''a9993e364706816aba3e25717850c26c9cd0d89d''"
  "hashSHA256 (js ''abc'') [] =
     js ''ba7816bf8f01cfea414140de5dae2223b00361a396177a9cb410ff61f20015ad''"
  "hashSHA512 (js ''abc'') [] =
     js ''ddaf35a193617abacc417349ae20413112e6fa4e89a97ea20a9eeee64b55d39a''
       @ js ''2192992a274fc1a836ba3c23a3feebbd454d4423643ce80e2a9ac94fa54ca49f''"
  by code_simp+

text \<open>
  The hashes of the golden password and salt, in both orders, computed from the
  definitions. The SHA-256 value of password followed by salt is the known vector that
  the specification asks to pin.
\<close>

lemma hashSHA1_password_salt:
  "hashSHA1 golden_password golden_salt =
     js ''26f54077323a359e5a0811c7c1c411cb176f27c9''"
  by code_simp

lemma hashSHA1_salt_password:
  "hashSHA1 golden_salt golden_password =
     js ''2fa653d343d3ae8a2e2574794dd06a27aa30a6f3''"
  by code_simp

lemma hashSHA256_password_salt:
  "hashSHA256 golden_password golden_salt =
     js ''23158217b910f0652fa81a5fef3721a458f65a5ea70e6f21a1b0c1a84cb5dce7''"
  by code_simp

lemma hashSHA256_salt_password:
  "hashSHA256 golden_salt golden_password =
     js ''a3c0e0c0a0280af45d0aa81eee2cfe310238bafc0cfcba89f48295281ac09fdf''"
  by code_simp

lemma hashSHA512_password_salt:
  "hashSHA512 golden_password golden_salt =
     js ''13d982bc44fc78a3e33d15d3b2fc810001a6dd546ed6d2e422c70b86db1017cb''
       @ js ''3a709edc5e0e1eae466e2449eeea582da889c2c4c37be26de1d5c878d64eb198''"
  by code_simp

lemma hashSHA512_salt_password:
  "hashSHA512 golden_salt golden_password =
     js ''b9872e83423acc9fe46f2a13b2eaa669b9aa37b47d50855015a6cd00d2a88018''
       @ js ''cc4dc7eea53bebc99c8dc358b31a6de3cdf694d7f4d3fff9536c38072bde85cc''"
  by code_simp

lemma order_matters:
  "hashMD5 golden_password golden_salt \<noteq> hashMD5 golden_salt golden_password"
  "hashSHA1 golden_password golden_salt \<noteq> hashSHA1 golden_salt golden_password"
  "hashSHA256 golden_password golden_salt \<noteq> hashSHA256 golden_salt golden_password"
  "hashSHA512 golden_password golden_salt \<noteq> hashSHA512 golden_salt golden_password"
proof -
  show "hashSHA1 golden_password golden_salt \<noteq> hashSHA1 golden_salt golden_password"
    by (simp add: hashSHA1_password_salt hashSHA1_salt_password js_def)
  show sha256: "hashSHA256 golden_password golden_salt \<noteq> hashSHA256 golden_salt golden_password"
    by (simp add: hashSHA256_password_salt hashSHA256_salt_password js_def)
  show "hashSHA512 golden_password golden_salt \<noteq> hashSHA512 golden_salt golden_password"
    by (simp add: hashSHA512_password_salt hashSHA512_salt_password js_def)
  from sha256
  show "hashMD5 golden_password golden_salt \<noteq> hashMD5 golden_salt golden_password"
    by (simp add: hash_functions_hexDigest)
qed

section \<open>Claims about salt generation\<close>

text \<open>
  Claim C4, as stated, for every positive length: \<^verbatim>\<open>generateSalt(65537)\<close> should return a
  string of 131074 hexadecimal digits. The random source refuses an array of more than
  65536 bytes, and the call fails with \<open>QuotaExceededError\<close>.
\<close>

theorem generateSalt_above_quota:
  "fst (generateSalt (Some 65537) zero_entropy) = Inl QuotaExceededError"
  by (simp add: generateSalt_def getRandomValues_def)

text \<open>
  Claim C4, amended: for a length \<open>n\<close> from 1 to 65536, \<^verbatim>\<open>generateSalt(n)\<close> draws \<open>n\<close>
  bytes and returns them as two lowercase hexadecimal digits each, in byte order: a
  string of length \<open>2 * n\<close> made of the characters \<^verbatim>\<open>0-9a-f\<close>. With the argument left out
  the length is 32, and the string has 64 characters.
\<close>

theorem generateSalt_encoding:
  assumes "0 < n" and "n \<le> 65536"
  shows "generateSalt (Some n) rs =
      (Inr (lowerHex (map rs [0..<nat n])), (\<lambda>i. rs (i + nat n)))
    \<and> int (length (lowerHex (map rs [0..<nat n]))) = 2 * n
    \<and> list_all isLowerHexDigit (lowerHex (map rs [0..<nat n]))
    \<and> generateSalt None rs = generateSalt (Some 32) rs
    \<and> length (lowerHex (map rs [0..<nat 32])) = 64"
proof -
  from assms have "generateSalt (Some n) rs =
      (Inr (lowerHex (map rs [0..<nat n])), (\<lambda>i. rs (i + nat n)))"
    by (intro generateSalt_in_quota) simp_all
  moreover from assms have "int (length (lowerHex (map rs [0..<nat n]))) = 2 * n"
    by (simp add: length_lowerHex)
  moreover have "length (lowerHex (map rs [0..<nat 32])) = 64"
    by (simp add: length_lowerHex)
  ultimately show ?thesis
    by (simp only: lowerHex_digits generateSalt_omitted simp_thms)
qed

theorem generateSalt_encoding_witness:
  "(0::int) < 3 \<and> (3::int) \<le> 65536
    \<and> fst (generateSalt (Some 3) sample_entropy) = Inr (js ''0b3055'')
    \<and> fst (generateSalt None zero_entropy) = Inr golden_salt"
proof -
  have "lowerHex (map sample_entropy [0..<nat 3]) = js ''0b3055''"
    by code_simp
  moreover have "lowerHex (map zero_entropy [0..<nat 32]) = golden_salt"
    by code_simp
  ultimately show ?thesis
    using generateSalt_encoding [of 3 sample_entropy] generateSalt_encoding [of 32 zero_entropy]
    by simp
qed


section \<open>Claims about hashing and verifying\<close>

text \<open>
  Claim C1 (round trip): for every password and every tag among \<^verbatim>\<open>'MD5'\<close>, \<^verbatim>\<open>'SHA-1'\<close>,
  \<^verbatim>\<open>'SHA-256'\<close> and \<^verbatim>\<open>'SHA-512'\<close>, whatever the random source supplies, \<open>hashPassword\<close>
  returns a record, and \<open>verifyPassword\<close> on the same password with the hash, the salt and
  the tag of that record returns true.
\<close>

theorem hash_then_verify:
  assumes "a \<in> set digestTags"
  shows "\<exists>r rs'. hashPassword bcrypt p a rs = (Inr r, rs')
    \<and> verifyPassword bcrypt p (hashedPassword r) (salt r) (algorithm r) = Inr True"
  using assms by (simp add: hashPassword_digest verifyPassword_digest)

theorem hash_then_verify_witness:
  "js ''SHA-1'' \<in> set digestTags
    \<and> (\<exists>r rs'. hashPassword stand_in_bcrypt golden_password (js ''SHA-1'') sample_entropy
          = (Inr r, rs')
        \<and> verifyPassword stand_in_bcrypt golden_password
            (hashedPassword r) (salt r) (algorithm r) = Inr True)"
  using hash_then_verify [of "js ''SHA-1''" stand_in_bcrypt golden_password sample_entropy]
  by (simp add: digestTags_def)

text \<open>
  Claim C2 (verify recomputes and compares): for the same four tags and all strings
  \<open>p\<close>, \<open>h\<close> and \<open>s\<close>, \<open>verifyPassword\<close> returns true exactly when the lowercase
  hexadecimal digest of the tag, taken over the UTF-8 bytes of \<open>p\<close> followed by \<open>s\<close>, is the
  string \<open>h\<close>.
\<close>

theorem verify_recomputes_and_compares:
  assumes "a \<in> set digestTags"
  shows "verifyPassword bcrypt p h s a
    = Inr (lowerHex (subtle_digest (digestFor a) (TextEncoder_encode (p @ s))) = h)"
  using assms by (simp add: verifyPassword_digest hexDigest_def)

theorem verify_recomputes_and_compares_witness:
  "js ''SHA-256'' \<in> set digestTags
    \<and> verifyPassword stand_in_bcrypt golden_password
        (js ''23158217b910f0652fa81a5fef3721a458f65a5ea70e6f21a1b0c1a84cb5dce7'')
        golden_salt (js ''SHA-256'') = Inr True
    \<and> verifyPassword stand_in_bcrypt golden_salt
        (js ''23158217b910f0652fa81a5fef3721a458f65a5ea70e6f21a1b0c1a84cb5dce7'')
        golden_password (js ''SHA-256'') = Inr False"
proof -
  have tag: "js ''SHA-256'' \<in> set digestTags"
    by (simp add: digestTags_def)
  have "digestFor (js ''SHA-256'') = SHA_256"
    by (rule digestFor_tags)
  then have
    "lowerHex (subtle_digest (digestFor (js ''SHA-256''))
        (TextEncoder_encode (golden_password @ golden_salt)))
      = js ''23158217b910f0652fa81a5fef3721a458f65a5ea70e6f21a1b0c1a84cb5dce7''"
    "lowerHex (subtle_digest (digestFor (js ''SHA-256''))
        (TextEncoder_encode (golden_salt @ golden_password)))
      \<noteq> js ''23158217b910f0652fa81a5fef3721a458f65a5ea70e6f21a1b0c1a84cb5dce7''"
    using hashSHA256_password_salt order_matters(3)
    by (simp_all add: hash_functions_hexDigest hexDigest_def)
  with tag show ?thesis
    using verify_recomputes_and_compares [OF tag, of stand_in_bcrypt golden_password _ golden_salt]
      verify_recomputes_and_compares [OF tag, of stand_in_bcrypt golden_salt _ golden_password]
    by simp
qed

text \<open>
  Claim C3 (message formation): for the same four tags, \<open>hashPassword\<close> takes the salt
  that \<open>generateSalt\<close> returns, computes the digest of the tag over the UTF-8 bytes of the
  password followed by that salt, writes it in hexadecimal, and returns the record with
  that salt and the tag it was given. The order matters: for the golden password and
  salt, each of the four hash functions gives another hash when the salt comes first.
\<close>

theorem hash_message_formation:
  assumes "a \<in> set digestTags"
  shows "(\<exists>s rs'. generateSalt None rs = (Inr s, rs')
      \<and> hashPassword bcrypt p a rs =
          (Inr \<lparr>hashedPassword =
                  lowerHex (subtle_digest (digestFor a) (TextEncoder_encode (p @ s))),
                salt = s, algorithm = a\<rparr>, rs'))
    \<and> hashMD5 golden_salt golden_password \<noteq> hashMD5 golden_password golden_salt
    \<and> hashSHA1 golden_salt golden_password \<noteq> hashSHA1 golden_password golden_salt
    \<and> hashSHA256 golden_salt golden_password \<noteq> hashSHA256 golden_password golden_salt
    \<and> hashSHA512 golden_salt golden_password \<noteq> hashSHA512 golden_password golden_salt"
proof -
  from assms have "\<exists>s rs'. generateSalt None rs = (Inr s, rs')
      \<and> hashPassword bcrypt p a rs =
          (Inr \<lparr>hashedPassword =
                  lowerHex (subtle_digest (digestFor a) (TextEncoder_encode (p @ s))),
                salt = s, algorithm = a\<rparr>, rs')"
    by (simp add: generateSalt_default hashPassword_digest hexDigest_def)
  with order_matters show ?thesis
    by (simp only: not_sym simp_thms)
qed

theorem hash_message_formation_witness:
  "js ''SHA-512'' \<in> set digestTags
    \<and> (\<exists>s rs'. generateSalt None zero_entropy = (Inr s, rs')
        \<and> hashPassword stand_in_bcrypt golden_password (js ''SHA-512'') zero_entropy =
            (Inr \<lparr>hashedPassword =
                    lowerHex (subtle_digest (digestFor (js ''SHA-512''))
                      (TextEncoder_encode (golden_password @ s))),
                  salt = s, algorithm = js ''SHA-512''\<rparr>, rs'))"
  using hash_message_formation [of "js ''SHA-512''" zero_entropy stand_in_bcrypt golden_password]
  by (simp add: digestTags_def)

text \<open>
  Claim C5 (the MD5 label is SHA-256): \<open>hashMD5\<close> and \<open>hashSHA256\<close> are the same function,
  the lowercase hexadecimal SHA-256 digest of password followed by salt; and from the
  same random source \<open>hashPassword\<close> returns the same hash and salt under the tags
  \<^verbatim>\<open>'MD5'\<close> and \<^verbatim>\<open>'SHA-256'\<close>.
\<close>

theorem md5_label_is_sha256:
  "hashMD5 = hashSHA256
    \<and> hashMD5 p s = lowerHex (subtle_digest SHA_256 (TextEncoder_encode (p @ s)))
    \<and> (\<exists>h s' rs'.
          hashPassword bcrypt p (js ''MD5'') rs =
            (Inr \<lparr>hashedPassword = h, salt = s', algorithm = js ''MD5''\<rparr>, rs')
        \<and> hashPassword bcrypt p (js ''SHA-256'') rs =
            (Inr \<lparr>hashedPassword = h, salt = s', algorithm = js ''SHA-256''\<rparr>, rs'))"
proof -
  have "hashMD5 = hashSHA256"
    by (intro ext) (simp add: hash_functions_hexDigest)
  moreover have "hashMD5 p s = lowerHex (subtle_digest SHA_256 (TextEncoder_encode (p @ s)))"
    by (simp add: hash_functions_hexDigest hexDigest_def)
  moreover have "js ''MD5'' \<in> set digestTags" and "js ''SHA-256'' \<in> set digestTags"
    by (simp_all add: digestTags_def)
  then have "\<exists>h s' rs'.
          hashPassword bcrypt p (js ''MD5'') rs =
            (Inr \<lparr>hashedPassword = h, salt = s', algorithm = js ''MD5''\<rparr>, rs')
        \<and> hashPassword bcrypt p (js ''SHA-256'') rs =
            (Inr \<lparr>hashedPassword = h, salt = s', algorithm = js ''SHA-256''\<rparr>, rs')"
    by (simp add: hashPassword_digest digestFor_tags)
  ultimately show ?thesis
    by (simp only: simp_thms)
qed

text \<open>
  Claim C6 (bcrypt): under the tag \<^verbatim>\<open>'bcrypt'\<close>, \<open>hashPassword\<close> calls the hash of the
  library with the cost 10 and returns its encoded string with the empty salt, whatever
  the library is. With bcryptjs, whatever its version, its cipher and the random source,
  the string begins with the cost 10, and verifying the record with the same password
  returns true.
\<close>

theorem bcrypt_contract:
  "(\<exists>r rs'. hashPassword bcrypt p (js ''bcrypt'') rs = (Inr r, rs')
      \<and> (hashedPassword r, rs') = bcrypt_hash bcrypt p 10 rs
      \<and> salt r = []
      \<and> algorithm r = js ''bcrypt'')
    \<and> (\<exists>r rs'. hashPassword (bcryptjs B) p (js ''bcrypt'') rs = (Inr r, rs')
      \<and> (hashedPassword r, rs') = bcrypt_hash (bcryptjs B) p 10 rs
      \<and> take 7 (hashedPassword r) = js ''$2'' @ [revision (version B)] @ js ''$10$''
      \<and> salt r = []
      \<and> algorithm r = js ''bcrypt''
      \<and> verifyPassword (bcryptjs B) p (hashedPassword r) (salt r) (algorithm r) = Inr True)"
proof -
  have "take 7 (fst (bcrypt_hash (bcryptjs B) p 10 rs))
      = js ''$2'' @ [revision (version B)] @ js ''$10$''"
    by (simp add: bcryptjs_hash_10 bcrypt_head_10 js_def)
  with bcryptjs_accepts [of B p rs] show ?thesis
    by (simp add: hashPassword_bcrypt verifyPassword_bcrypt)
qed

text \<open>
  Claim C7 (unsupported algorithm): for a tag that is none of \<^verbatim>\<open>'MD5'\<close>, \<^verbatim>\<open>'SHA-1'\<close>,
  \<^verbatim>\<open>'SHA-256'\<close>, \<^verbatim>\<open>'SHA-512'\<close> and \<^verbatim>\<open>'bcrypt'\<close>, \<open>hashPassword\<close> and \<open>verifyPassword\<close>
  both fail with the error \<^verbatim>\<open>Unsupported algorithm: <tag>\<close>, whatever the password, the
  stored hash and the salt: no record and no boolean is returned.
\<close>

theorem unsupported_algorithm:
  assumes "a \<notin> set knownTags"
  shows "fst (hashPassword bcrypt p a rs) = Inl (Error (js ''Unsupported algorithm: '' @ a))
    \<and> verifyPassword bcrypt p h s a = Inl (Error (js ''Unsupported algorithm: '' @ a))"
  using assms by (simp add: unsupported_tag unsupported_def)

theorem unsupported_algorithm_witness:
  "js ''ROT13'' \<notin> set knownTags
    \<and> fst (hashPassword stand_in_bcrypt golden_password (js ''ROT13'') zero_entropy)
        = Inl (Error (js ''Unsupported algorithm: ROT13''))
    \<and> verifyPassword stand_in_bcrypt golden_password [] golden_salt (js ''ROT13'')
        = Inl (Error (js ''Unsupported algorithm: ROT13''))"
proof -
  have unknown: "js ''ROT13'' \<notin> set knownTags"
    by (simp add: knownTags_def js_def)
  from unsupported_algorithm [OF unknown] unknown show ?thesis
    by (simp add: js_def)
qed

text \<open>
  Claim C9 (the salt is ignored for bcrypt): under the tag \<^verbatim>\<open>'bcrypt'\<close> the result of
  \<open>verifyPassword\<close> is the answer of the library's compare on the password and the stored
  hash, the same for any two salts.
\<close>

theorem bcrypt_verify_ignores_salt:
  "verifyPassword bcrypt p h s1 (js ''bcrypt'') = verifyPassword bcrypt p h s2 (js ''bcrypt'')
    \<and> verifyPassword bcrypt p h s1 (js ''bcrypt'') = Inr (bcrypt_compare bcrypt p h)"
  by (simp add: verifyPassword_bcrypt)

text \<open>
  Claim C10 (the labels MD5 and SHA-256 are interchangeable): \<open>verifyPassword\<close> returns
  the same under the tags \<^verbatim>\<open>'MD5'\<close> and \<^verbatim>\<open>'SHA-256'\<close>; a record that \<open>hashPassword\<close>
  made under one of the two tags verifies, with the same password, under the other.
\<close>

theorem md5_sha256_interchangeable:
  "verifyPassword bcrypt p h s (js ''MD5'') = verifyPassword bcrypt p h s (js ''SHA-256'')
    \<and> (\<exists>r rs'. hashPassword bcrypt p (js ''MD5'') rs = (Inr r, rs')
        \<and> verifyPassword bcrypt p (hashedPassword r) (salt r) (js ''SHA-256'') = Inr True)
    \<and> (\<exists>r rs'. hashPassword bcrypt p (js ''SHA-256'') rs = (Inr r, rs')
        \<and> verifyPassword bcrypt p (hashedPassword r) (salt r) (js ''MD5'') = Inr True)"
proof -
  have tags: "js ''MD5'' \<in> set digestTags" "js ''SHA-256'' \<in> set digestTags"
    by (simp_all add: digestTags_def)
  have same: "digestFor (js ''MD5'') = digestFor (js ''SHA-256'')"
    by (simp add: digestFor_tags)
  from tags same show ?thesis
    by (simp add: hashPassword_digest verifyPassword_digest)
qed

end
